theory Spec2Isabelle
  imports Main
begin

section \<open>ConcurrencyGate: processWithConcurrency (src/http-server.js, lines 112-132)\<close>

text \<open>
  A settled promise, as \<^verbatim>\<open>Promise.allSettled\<close> reports it:
  \<^verbatim>\<open>{status: 'fulfilled', value}\<close> or \<^verbatim>\<open>{status: 'rejected', reason}\<close>.
\<close>

datatype ('o, 'e) settled = Fulfilled 'o | Rejected 'e

fun is_fulfilled :: "('o, 'e) settled \<Rightarrow> bool" where
  "is_fulfilled (Fulfilled v) = True"
| "is_fulfilled (Rejected e) = False"

fun is_rejected :: "('o, 'e) settled \<Rightarrow> bool" where
  "is_rejected (Fulfilled v) = False"
| "is_rejected (Rejected e) = True"

text \<open>
  The processor is an async function: calling it never throws, it returns a promise that
  settles. Its behaviour on an item is the pair of the number of ticks of the event loop the
  promise takes to settle and the way it settles. A promise created at time \<open>now\<close> is then
  the pair of its settling time and its result.
\<close>

type_synonym ('o, 'e) promise = "nat \<times> ('o, 'e) settled"

type_synonym ('i, 'o, 'e) processor = "'i \<Rightarrow> nat \<times> ('o, 'e) settled"

text \<open>
  An entry of the array \<^verbatim>\<open>executing\<close>: the promise together with its slot (its index in
  \<^verbatim>\<open>results\<close>), which stands for the object identity that \<^verbatim>\<open>executing.indexOf(promise)\<close>
  looks for.
\<close>

type_synonym ('o, 'e) entry = "nat \<times> ('o, 'e) promise"

text \<open>
  Promises settle one at a time, each in a turn of the event loop of its own: in the order
  of their settling times and, among promises due at the same tick, in the order in which
  they were started. \<^verbatim>\<open>Promise.race(executing)\<close> settles as the first member of the array to
  settle does; \<open>race\<close> gives this member.
\<close>

fun earliest :: "('o, 'e) entry \<Rightarrow> ('o, 'e) entry list \<Rightarrow> ('o, 'e) entry" where
  "earliest e [] = e"
| "earliest e (x # xs) = earliest (if fst (snd x) < fst (snd e) then x else e) xs"

definition race :: "('o, 'e) entry list \<Rightarrow> ('o, 'e) entry" where
  "race executing = earliest (hd executing) (tl executing)"

text \<open>
  The \<^verbatim>\<open>.then\<close> callback of a promise (lines 117-121) runs when the promise of the processor
  is fulfilled, and only then: it splices this one promise out of \<^verbatim>\<open>executing\<close>. A rejected
  promise has no callback and stays in the array. When a race is won by a fulfilled promise
  the loop resumes at once: the callback of the winner has run, the callbacks of the other
  promises have not, also of those due at the same tick. \<open>still_executing slot\<close> is the array
  after the callback of the promise in this slot.
\<close>

definition still_executing :: "nat \<Rightarrow> ('o, 'e) entry list \<Rightarrow> ('o, 'e) entry list" where
  "still_executing slot executing = filter (\<lambda>en. fst en \<noteq> slot) executing"

text \<open>
  The \<^verbatim>\<open>for (const item of items)\<close> loop. The state is the clock, \<^verbatim>\<open>executing\<close> and
  \<^verbatim>\<open>results\<close>. Time passes only at \<^verbatim>\<open>await Promise.race(executing)\<close>; when the race is won
  by a rejected promise the \<^verbatim>\<open>await\<close> throws and the async function rejects with that reason
  (\<open>Inl\<close>). After the loop, \<^verbatim>\<open>Promise.allSettled(results)\<close> gives the result of every promise
  in the order of \<^verbatim>\<open>results\<close> (\<open>Inr\<close>). The first component of the result is the number of
  calls of the processor that were made (the length of \<^verbatim>\<open>results\<close>): the processor is
  called on the items in order, so these are the calls on the first items.
\<close>

fun gate_loop ::
  "('i, 'o, 'e) processor \<Rightarrow> nat \<Rightarrow> 'i list \<Rightarrow> nat \<Rightarrow> ('o, 'e) entry list \<Rightarrow>
   ('o, 'e) promise list \<Rightarrow> nat \<times> ('e + ('o, 'e) settled list)" where
  "gate_loop processor maxConcurrency [] now executing results =
     (length results, Inr (map snd results))"
| "gate_loop processor maxConcurrency (item # items) now executing results =
     (let promise = (now + fst (processor item), snd (processor item));
          results' = results @ [promise];
          executing' = executing @ [(length results, promise)]
      in if length executing' \<ge> maxConcurrency then
           (case race executing' of
              (slot, t, Rejected reason) \<Rightarrow> (length results', Inl reason)
            | (slot, t, Fulfilled v) \<Rightarrow>
                gate_loop processor maxConcurrency items (max now t)
                  (still_executing slot executing') results')
         else gate_loop processor maxConcurrency items now executing' results')"

definition processWithConcurrency ::
  "'i list \<Rightarrow> ('i, 'o, 'e) processor \<Rightarrow> nat \<Rightarrow> nat \<times> ('e + ('o, 'e) settled list)" where
  "processWithConcurrency items processor maxConcurrency =
     gate_loop processor maxConcurrency items 0 [] []"

section \<open>BatchOrchestrator: processBatchWithRetry (src/http-server.js, lines 135-168)\<close>

text \<open>\<^verbatim>\<open>PERFORMANCE_CONFIG\<close> (lines 81-87).\<close>

definition MAX_CONCURRENT_REQUESTS :: nat where "MAX_CONCURRENT_REQUESTS = 12"
definition COURSE_BATCH_SIZE :: nat where "COURSE_BATCH_SIZE = 10"
definition MAX_COURSES :: nat where "MAX_COURSES = 15"

text \<open>The process-wide \<^verbatim>\<open>performanceMetrics\<close> object (lines 90-96).\<close>

record performanceMetrics =
  totalRequests :: nat
  successfulRequests :: nat
  failedRequests :: nat
  averageResponseTime :: nat
  lastResetTime :: nat

text \<open>
  The first loop, \<^verbatim>\<open>for (let i = 0; i < items.length; i += batchSize)
  batches.push(items.slice(i, i + batchSize))\<close>. With \<^verbatim>\<open>batchSize\<close> 0 and a non-empty
  \<^verbatim>\<open>items\<close> the index never moves and the loop does not end: \<open>batches_of\<close> is \<open>None\<close> there.
\<close>

function slices :: "nat \<Rightarrow> nat \<Rightarrow> 'a list \<Rightarrow> 'a list list" where
  "slices i batchSize items =
     (if i < length items \<and> 0 < batchSize
      then take batchSize (drop i items) # slices (i + batchSize) batchSize items
      else [])"
  by pat_completeness auto
termination
  by (relation "measure (\<lambda>(i, batchSize, items). length items - i)") auto

declare slices.simps [simp del]

definition batches_of :: "nat \<Rightarrow> 'a list \<Rightarrow> 'a list list option" where
  "batches_of batchSize items =
     (if batchSize = 0 \<and> items \<noteq> [] then None else Some (slices 0 batchSize items))"

text \<open>
  The second loop, \<^verbatim>\<open>for (const batch of batches)\<close>, with its \<^verbatim>\<open>try\<close> and \<^verbatim>\<open>catch\<close>
  branches. The pacing delay between batches only lets time pass. The gate is called with
  its default limit.
\<close>

fun run_batches ::
  "('i, 'o, 'e) processor \<Rightarrow> 'i list list \<Rightarrow> performanceMetrics \<Rightarrow> ('o, 'e) settled list \<Rightarrow>
   ('o, 'e) settled list \<times> performanceMetrics" where
  "run_batches processor [] m allResults = (allResults, m)"
| "run_batches processor (batch # batches) m allResults =
     (case snd (processWithConcurrency batch processor MAX_CONCURRENT_REQUESTS) of
        Inr batchResults \<Rightarrow>
          run_batches processor batches
            (m\<lparr>totalRequests := totalRequests m + length batch,
               successfulRequests :=
                 successfulRequests m + length (filter is_fulfilled batchResults),
               failedRequests := failedRequests m + length (filter is_rejected batchResults)\<rparr>)
            (allResults @ batchResults)
      | Inl error \<Rightarrow>
          run_batches processor batches
            (m\<lparr>failedRequests := failedRequests m + length batch\<rparr>) allResults)"

text \<open>
  \<open>processBatchWithRetry\<close> takes the metrics before the call and gives the returned array
  with the metrics after it; \<open>None\<close> is the call that never returns.
\<close>

definition processBatchWithRetry ::
  "'i list \<Rightarrow> ('i, 'o, 'e) processor \<Rightarrow> nat \<Rightarrow> performanceMetrics \<Rightarrow>
   (('o, 'e) settled list \<times> performanceMetrics) option" where
  "processBatchWithRetry items processor batchSize m =
     (case batches_of batchSize items of
        None \<Rightarrow> None
      | Some batches \<Rightarrow> Some (run_batches processor batches m []))"

text \<open>The reset of \<^verbatim>\<open>POST /logout\<close> (lines 645-652); \<open>now\<close> is \<^verbatim>\<open>Date.now()\<close>.\<close>

definition logout_reset :: "nat \<Rightarrow> performanceMetrics" where
  "logout_reset now =
     \<lparr>totalRequests = 0, successfulRequests = 0, failedRequests = 0,
      averageResponseTime = 0, lastResetTime = now\<rparr>"

section \<open>RetryingPaginatedClient: CanvasClient (src/unnamed/part_001, client.ts, lines 38-177)\<close>

subsection \<open>Values, responses and errors\<close>

text \<open>A parsed response body.\<close>

datatype json = JNull | JBool bool | JNum int | JStr string | JArr "json list"
  | JObj "(string \<times> json) list"

text \<open>
  What the interceptors read of an axios response: the status, \<^verbatim>\<open>headers.link\<close> (\<open>None\<close>
  when the header is absent) and \<^verbatim>\<open>data\<close>. The upstream either sends a response or none at
  all (a network-level failure).
\<close>

record response =
  status :: nat
  link :: "string option"
  data :: json

datatype reply = NoResponse | Reply response

text \<open>
  The fields of the request config the interceptors read: the URL, the flag
  \<^verbatim>\<open>_isPaginationRequest\<close> and \<^verbatim>\<open>__retryCount\<close>, which is \<^verbatim>\<open>undefined\<close> (\<open>None\<close>) until
  the error interceptor writes it. No other code of the repository writes it.
\<close>

record requestConfig =
  url :: string
  isPaginationRequest :: bool
  retryCount :: "nat option"

text \<open>
  What a request ends with when it fails: \<^verbatim>\<open>CanvasAPIError\<close> with \<^verbatim>\<open>statusCode\<close> and the
  raw body, the axios error without a response rethrown as it is, or a \<^verbatim>\<open>TypeError\<close> of the
  JavaScript runtime.
\<close>

datatype error = CanvasAPIError nat json | NetworkError | TypeError

record canvasClient =
  maxRetries :: nat
  retryDelay :: nat

text \<open>
  The observable traffic of a client: the requests sent, each with its URL and its
  \<^verbatim>\<open>_isPaginationRequest\<close> flag, and the delays slept, in milliseconds. The upstream answers
  the \<open>k\<close>-th request sent (counted from 0) to a URL.
\<close>

record traffic =
  requests :: "(string \<times> bool) list"
  sleeps :: "nat list"

type_synonym upstream = "nat \<Rightarrow> string \<Rightarrow> reply"

subsection \<open>Strings\<close>

fun startsWith :: "string \<Rightarrow> string \<Rightarrow> bool" where
  "startsWith s [] = True"
| "startsWith [] (p # ps) = False"
| "startsWith (c # cs) (p # ps) = (c = p \<and> startsWith cs ps)"

text \<open>\<^verbatim>\<open>s.includes(sub)\<close>.\<close>

fun includes_str :: "string \<Rightarrow> string \<Rightarrow> bool" where
  "includes_str [] sub = (sub = [])"
| "includes_str (c # cs) sub = (startsWith (c # cs) sub \<or> includes_str cs sub)"

text \<open>\<^verbatim>\<open>s.split(sep)\<close> for a separator of one character; the empty string gives \<^verbatim>\<open>['']\<close>.\<close>

fun split_on :: "char \<Rightarrow> string \<Rightarrow> string \<Rightarrow> string list" where
  "split_on sep cur [] = [cur]"
| "split_on sep cur (c # cs) =
     (if c = sep then cur # split_on sep [] cs else split_on sep (cur @ [c]) cs)"

definition split :: "char \<Rightarrow> string \<Rightarrow> string list" where
  "split sep s = split_on sep [] s"

text \<open>A string, or \<^verbatim>\<open>undefined\<close> or \<^verbatim>\<open>null\<close>, used as a condition.\<close>

definition truthy :: "string option \<Rightarrow> bool" where
  "truthy s = (case s of None \<Rightarrow> False | Some t \<Rightarrow> t \<noteq> [])"

subsection \<open>getNextPageUrl (lines 170-177)\<close>

text \<open>
  \<^verbatim>\<open>nextLink.match(/<(.+?)>/)\<close>: the leftmost \<^verbatim>\<open><\<close> that is followed by at least one
  character other than a line terminator and then, after as few such characters as
  possible, by \<^verbatim>\<open>>\<close>; the result is the group between the two.
\<close>

definition line_terminator :: "char \<Rightarrow> bool" where
  "line_terminator c = (c = CHR 0x0A \<or> c = CHR 0x0D)"

fun lazy_group :: "string \<Rightarrow> string \<Rightarrow> string option" where
  "lazy_group grp [] = None"
| "lazy_group grp (c # cs) =
     (if c = CHR ''>'' then Some grp
      else if line_terminator c then None
      else lazy_group (grp @ [c]) cs)"

fun match_angle :: "string \<Rightarrow> string option" where
  "match_angle [] = None"
| "match_angle [c] = None"
| "match_angle (c # d # cs) =
     (if c = CHR ''<'' \<and> \<not> line_terminator d then
        (case lazy_group [d] cs of
           Some grp \<Rightarrow> Some grp
         | None \<Rightarrow> match_angle (d # cs))
      else match_angle (d # cs))"

definition getNextPageUrl :: "string \<Rightarrow> string option" where
  "getNextPageUrl linkHeader =
     (case find (\<lambda>l. includes_str l ''rel=\"next\"'') (split CHR '','' linkHeader) of
        None \<Rightarrow> None
      | Some nextLink \<Rightarrow> match_angle nextLink)"

subsection \<open>The error interceptor: retry (lines 101-136)\<close>

text \<open>The argument is \<^verbatim>\<open>error.response\<close>.\<close>

definition shouldRetry :: "response option \<Rightarrow> bool" where
  "shouldRetry resp =
     (case resp of None \<Rightarrow> True | Some r \<Rightarrow> status r = 429 \<or> status r \<ge> 500)"

text \<open>axios: a reply with a 2xx status resolves, anything else rejects.\<close>

definition axios_result :: "reply \<Rightarrow> response option + response" where
  "axios_result rep =
     (case rep of
        NoResponse \<Rightarrow> Inl None
      | Reply r \<Rightarrow> if 200 \<le> status r \<and> status r < 300 then Inr r else Inl (Some r))"

text \<open>
  The condition of line 105, \<^verbatim>\<open>this.shouldRetry(error) && config &&
  config.__retryCount < this.maxRetries\<close>. In JavaScript \<^verbatim>\<open>undefined < n\<close> is \<^verbatim>\<open>false\<close>.
\<close>

definition retry_allowed :: "canvasClient \<Rightarrow> requestConfig \<Rightarrow> response option \<Rightarrow> bool" where
  "retry_allowed cl config err =
     (shouldRetry err \<and>
      (case retryCount config of None \<Rightarrow> False | Some n \<Rightarrow> n < maxRetries cl))"

text \<open>Lines 106-107: \<^verbatim>\<open>config.__retryCount = config.__retryCount || 0; config.__retryCount++\<close>.\<close>

definition count_retry :: "requestConfig \<Rightarrow> requestConfig" where
  "count_retry config =
     config\<lparr>retryCount := Some ((case retryCount config of None \<Rightarrow> 0 | Some n \<Rightarrow> n) + 1)\<rparr>"

text \<open>Line 109, on the config whose counter has been incremented.\<close>

definition backoff :: "canvasClient \<Rightarrow> requestConfig \<Rightarrow> nat" where
  "backoff cl config = retryDelay cl * 2 ^ (the (retryCount config) - 1)"

text \<open>Lines 117-126.\<close>

definition transform_error :: "response option \<Rightarrow> error" where
  "transform_error err =
     (case err of Some r \<Rightarrow> CanvasAPIError (status r) (data r) | None \<Rightarrow> NetworkError)"

definition sent :: "requestConfig \<Rightarrow> traffic \<Rightarrow> traffic" where
  "sent config tr = tr\<lparr>requests := requests tr @ [(url config, isPaginationRequest config)]\<rparr>"

definition slept :: "nat \<Rightarrow> traffic \<Rightarrow> traffic" where
  "slept ms tr = tr\<lparr>sleeps := sleeps tr @ [ms]\<rparr>"

text \<open>
  One request with the error interceptor: the request is sent; a failure that may be retried
  is counted, slept on and sent again through \<^verbatim>\<open>this.client.request(config)\<close>; any other
  failure is transformed and thrown. The result is the first response that resolves.
\<close>

function attempt ::
  "canvasClient \<Rightarrow> upstream \<Rightarrow> traffic \<Rightarrow> requestConfig \<Rightarrow> traffic \<times> (error + response)" where
  "attempt cl up tr config =
     (case axios_result (up (length (requests tr)) (url config)) of
        Inr r \<Rightarrow> (sent config tr, Inr r)
      | Inl err \<Rightarrow>
          if retry_allowed cl config err
          then attempt cl up (slept (backoff cl (count_retry config)) (sent config tr))
                 (count_retry config)
          else (sent config tr, Inl (transform_error err)))"
  by pat_completeness auto
termination
  by (relation "measure (\<lambda>(cl, up, tr, config). maxRetries cl - the (retryCount config))")
     (auto simp: retry_allowed_def count_retry_def split: option.splits)

declare attempt.simps [simp del]

subsection \<open>The response interceptor: pagination (lines 79-100)\<close>

text \<open>
  The request of line 91, \<^verbatim>\<open>this.client.get(nextUrl, {_isPaginationRequest: true})\<close>. It
  passes the same interceptors; the response interceptor leaves its response as it is,
  since the flag is set.
\<close>

definition continuation :: "string \<Rightarrow> requestConfig" where
  "continuation u = \<lparr>url = u, isPaginationRequest = True, retryCount = None\<rparr>"

text \<open>
  The spread \<^verbatim>\<open>...nextResponse.data\<close>: the elements of an array, the characters of a string,
  a \<^verbatim>\<open>TypeError\<close> for a value that is not iterable (\<open>None\<close>).
\<close>

fun spread :: "json \<Rightarrow> json list option" where
  "spread (JArr xs) = Some xs"
| "spread (JStr s) = Some (map (\<lambda>c. JStr [c]) s)"
| "spread other = None"

text \<open>
  Lines 92-93. \<^verbatim>\<open>getNextPageUrl\<close> calls \<^verbatim>\<open>linkHeader.split\<close>: on a response without a Link
  header this is a \<^verbatim>\<open>TypeError\<close>.
\<close>

definition next_page :: "json list \<Rightarrow> response \<Rightarrow> error + json list \<times> string option" where
  "next_page allData nextResponse =
     (case spread (data nextResponse) of
        None \<Rightarrow> Inl TypeError
      | Some items \<Rightarrow>
          (case link nextResponse of
             None \<Rightarrow> Inl TypeError
           | Some l \<Rightarrow> Inr (allData @ items, getNextPageUrl l)))"

text \<open>The condition of line 85.\<close>

definition paginates :: "requestConfig \<Rightarrow> response \<Rightarrow> bool" where
  "paginates config r =
     ((case data r of JArr xs \<Rightarrow> True | _ \<Rightarrow> False) \<and> truthy (link r) \<and>
      \<not> isPaginationRequest config)"

text \<open>Line 96, \<^verbatim>\<open>response.data = allData\<close>, once the loop has ended.\<close>

definition with_data ::
  "response \<Rightarrow> (traffic \<times> (error + json list)) option \<Rightarrow> (traffic \<times> (error + response)) option" where
  "with_data r followed =
     (case followed of
        None \<Rightarrow> None
      | Some (tr, Inl e) \<Rightarrow> Some (tr, Inl e)
      | Some (tr, Inr allData) \<Rightarrow> Some (tr, Inr (r\<lparr>data := JArr allData\<rparr>)))"

text \<open>
  A request through both interceptors, and the loop \<^verbatim>\<open>while (nextUrl)\<close> of the response
  interceptor, whose request of line 91 is again a request through both interceptors, on a
  config with the flag set. The response interceptor runs once for a request, on the
  response that resolved: for a retried request it runs inside the call of
  \<^verbatim>\<open>this.client.request(config)\<close> that succeeded, on the same config. Nothing bounds the
  number of pages, so the loop takes fuel, one unit for each continuation request; \<open>None\<close>
  is the loop that has not ended within the fuel.
\<close>

fun request ::
    "nat \<Rightarrow> canvasClient \<Rightarrow> upstream \<Rightarrow> traffic \<Rightarrow> requestConfig \<Rightarrow>
     (traffic \<times> (error + response)) option"
  and follow ::
    "nat \<Rightarrow> canvasClient \<Rightarrow> upstream \<Rightarrow> traffic \<Rightarrow> json list \<Rightarrow> string option \<Rightarrow>
     (traffic \<times> (error + json list)) option" where
  "request fuel cl up tr config =
     (case attempt cl up tr config of
        (tr', Inl e) \<Rightarrow> Some (tr', Inl e)
      | (tr', Inr r) \<Rightarrow>
          if paginates config r
          then with_data r
                 (follow fuel cl up tr' (the (spread (data r))) (getNextPageUrl (the (link r))))
          else Some (tr', Inr r))"
| "follow 0 cl up tr allData nextUrl =
     (if \<not> truthy nextUrl then Some (tr, Inr allData) else None)"
| "follow (Suc fuel) cl up tr allData nextUrl =
     (if \<not> truthy nextUrl then Some (tr, Inr allData)
      else
        (case request fuel cl up tr (continuation (the nextUrl)) of
           None \<Rightarrow> None
         | Some (tr', Inl e) \<Rightarrow> Some (tr', Inl e)
         | Some (tr', Inr nextResponse) \<Rightarrow>
             (case next_page allData nextResponse of
                Inl e \<Rightarrow> Some (tr', Inl e)
              | Inr (allData', nextUrl') \<Rightarrow> follow fuel cl up tr' allData' nextUrl')))"

declare request.simps [simp del]
declare follow.simps [simp del]

text \<open>\<^verbatim>\<open>this.client.get(url)\<close> as the methods of the client call it, and a new client.\<close>

definition get_config :: "string \<Rightarrow> requestConfig" where
  "get_config u = \<lparr>url = u, isPaginationRequest = False, retryCount = None\<rparr>"

definition default_client :: canvasClient where
  "default_client = \<lparr>maxRetries = 3, retryDelay = 1000\<rparr>"

definition no_traffic :: traffic where
  "no_traffic = \<lparr>requests = [], sleeps = []\<rparr>"

section \<open>QueryAnalyzer: fallbackQueryProcessing (src/services/gemini.js, lines 184-217)\<close>

text \<open>A course of \<^verbatim>\<open>userCourses\<close>, with the two fields the function reads.\<close>

record course =
  course_code :: string
  name :: string

text \<open>
  The object the function returns. The values it may hold are the string literals of the
  source; \<^verbatim>\<open>null\<close> is \<open>None\<close>.
\<close>

record searchIntent =
  searchType :: string
  courseFilter :: "string option"
  timeFilter :: "string option"
  priority :: "string option"
  keywords' :: "string list"
  specificItems :: "string list"
  intent :: string

text \<open>
  The regular expressions carry the flag \<^verbatim>\<open>i\<close> and consist of lower-case letters, blanks
  and \<^verbatim>\<open>\d\<close>: a character of the query matches a letter of the pattern when it is the
  letter in either case. \<open>test_i\<close> is \<^verbatim>\<open>/a|b|c/i.test(s)\<close> for literal alternatives.
\<close>

definition lower :: "char \<Rightarrow> char" where
  "lower c =
     (case map_of (zip ''ABCDEFGHIJKLMNOPQRSTUVWXYZ'' ''abcdefghijklmnopqrstuvwxyz'') c of
        Some l \<Rightarrow> l
      | None \<Rightarrow> c)"

definition digit :: "char \<Rightarrow> bool" where
  "digit c = (c \<in> set ''0123456789'')"

definition test_i :: "string list \<Rightarrow> string \<Rightarrow> bool" where
  "test_i alternatives s = list_ex (includes_str (map lower s)) alternatives"

text \<open>\<^verbatim>\<open>/ps\d+/i.test(s)\<close>.\<close>

fun ps_digits :: "string \<Rightarrow> bool" where
  "ps_digits (a # b # c # cs) =
     ((lower a = CHR ''p'' \<and> lower b = CHR ''s'' \<and> digit c) \<or> ps_digits (b # c # cs))"
| "ps_digits cs = False"

definition isAssignment :: "string \<Rightarrow> bool" where
  "isAssignment q =
     (test_i [''assignment'', ''homework'', ''hw''] q \<or> ps_digits q \<or>
      test_i [''problem set'', ''project'', ''quiz'', ''exam'', ''test''] q)"

definition isAnnouncement :: "string \<Rightarrow> bool" where
  "isAnnouncement q = test_i [''announcement'', ''news'', ''update'', ''notice''] q"

definition isFile :: "string \<Rightarrow> bool" where
  "isFile q = test_i [''file'', ''document'', ''pdf'', ''syllabus'', ''material''] q"

definition isCourse :: "string \<Rightarrow> bool" where
  "isCourse q = test_i [''course'', ''class'', ''taking'', ''enrolled''] q"

text \<open>Lines 194-197.\<close>

definition detect_timeFilter :: "string \<Rightarrow> string option" where
  "detect_timeFilter q =
     (if test_i [''this week'', ''week''] q then Some ''this_week''
      else if test_i [''next week''] q then Some ''next_week''
      else if test_i [''due'', ''deadline''] q then Some ''this_week''
      else None)"

text \<open>Lines 200-206: the first course whose code or name occurs in the query.\<close>

definition detect_course :: "string \<Rightarrow> course list \<Rightarrow> string option" where
  "detect_course q userCourses =
     (case find (\<lambda>c. includes_str q (course_code c) \<or> includes_str q (name c)) userCourses of
        None \<Rightarrow> None
      | Some c \<Rightarrow> Some (course_code c))"

text \<open>
  No operation of the function throws on a string and a list of courses, so the model has
  no error branch.
\<close>

definition fallbackQueryProcessing :: "string \<Rightarrow> course list \<Rightarrow> searchIntent" where
  "fallbackQueryProcessing userQuery userCourses =
     \<lparr>searchType =
        (if isAssignment userQuery then ''assignments''
         else if isAnnouncement userQuery then ''announcements''
         else if isFile userQuery then ''files''
         else if isCourse userQuery then ''courses''
         else ''general''),
      courseFilter = detect_course userQuery userCourses,
      timeFilter = detect_timeFilter userQuery,
      priority =
        (if test_i [''due'', ''deadline'', ''urgent''] userQuery then Some ''due_soon'' else None),
      keywords' = filter (\<lambda>word. length word > 2) (split CHR '' '' userQuery),
      specificItems = [],
      intent =
        (if isAssignment userQuery then ''find_assignments''
         else if isCourse userQuery then ''get_course_info''
         else ''general_question'')\<rparr>"

text \<open>
  The shape the analyzer asks the language model for (the prompt of \<^verbatim>\<open>processQuery\<close>, lines
  78-86): the values each field of a SearchIntent may take.
\<close>

definition valid_SearchIntent :: "searchIntent \<Rightarrow> bool" where
  "valid_SearchIntent si =
     (searchType si \<in> {''assignments'', ''announcements'', ''files'', ''courses'', ''general''} \<and>
      timeFilter si \<in>
        {None, Some ''this_week'', Some ''next_week'', Some ''this_month'', Some ''past_due''} \<and>
      priority si \<in> {None, Some ''due_soon'', Some ''overdue'', Some ''high_priority''} \<and>
      intent si \<in>
        {''find_assignments'', ''check_deadlines'', ''get_course_info'', ''general_question''})"

section \<open>IngestionPipeline: POST /api/recordings/process (src/http-server.js, lines 1188-1354)\<close>

text \<open>A row of the table \<^verbatim>\<open>recordings\<close>, with the columns the handler writes.\<close>

record recording =
  rec_status :: string
  rec_summary :: "string option"
  rec_transcription :: "string option"
  rec_audio_url :: "string option"

text \<open>
  What the handler acts on: the local files, the objects of the storage bucket, the table of
  recordings, and the logs of the deletions that were carried out (local \<^verbatim>\<open>unlinkSync\<close>,
  storage \<^verbatim>\<open>remove\<close>) and of the recordings indexed.
\<close>

record world =
  files :: "string list"
  blobs :: "string list"
  recordings :: "string \<rightharpoonup> recording"
  unlinked :: "string list"
  removed :: "string list"
  vectorized :: "string list"

text \<open>
  The external services, as the run meets them: whether the storage and the database answer,
  what the transcription of a file and the summary of a transcript give (\<open>Inl\<close> is the message
  of the error thrown), the public URL of an object, whether indexing succeeds.
\<close>

record services =
  storage_up :: bool
  database_up :: bool
  transcribeAudio :: "string \<Rightarrow> string + string"
  generateLectureSummary :: "string \<Rightarrow> string \<Rightarrow> string + string"
  getAudioFileUrl :: "string \<Rightarrow> string"
  vectorizeRecording :: "string \<Rightarrow> bool"

record upload =
  path :: string
  mimetype :: "string option"

record processRequest =
  audioFile :: "upload option"
  userId :: "string option"
  courseId :: "string option"
  recordingId :: "string option"

text \<open>
  The answers: 400, 200 with the updated recording, the transcription and the summary, and 500
  with \<^verbatim>\<open>error.message\<close>.
\<close>

datatype processResponse =
    BadRequest
  | Processed recording string string
  | ProcessingFailed string

definition readFileSync :: "string \<Rightarrow> world \<Rightarrow> string + unit" where
  "readFileSync p w =
     (if p \<in> set (files w) then Inr ()
      else Inl (''ENOENT: no such file or directory, open '' @ [CHR 0x27] @ p @ [CHR 0x27]))"

definition copyFileSync :: "string \<Rightarrow> string \<Rightarrow> world \<Rightarrow> string + world" where
  "copyFileSync src dst w =
     (if src \<in> set (files w) then Inr (w\<lparr>files := List.insert dst (files w)\<rparr>)
      else Inl (''ENOENT: no such file or directory, copyfile '' @ [CHR 0x27] @ src @
                [CHR 0x27] @ '' -> '' @ [CHR 0x27] @ dst @ [CHR 0x27]))"

definition unlinkSync :: "string \<Rightarrow> world \<Rightarrow> string + world" where
  "unlinkSync p w =
     (if p \<in> set (files w)
      then Inr (w\<lparr>files := removeAll p (files w), unlinked := unlinked w @ [p]\<rparr>)
      else Inl (''ENOENT: no such file or directory, unlink '' @ [CHR 0x27] @ p @ [CHR 0x27]))"

text \<open>
  \<^verbatim>\<open>SupabaseStorageService\<close> (src/services/weaviate.js, lines 968-1020) and
  \<^verbatim>\<open>SupabaseRecordingService.updateRecording\<close> (lines 808-825). An upload does not overwrite
  (\<^verbatim>\<open>upsert: false\<close>); an update returns the single row it changed and fails without one.
\<close>

definition blobName :: "string \<Rightarrow> string \<Rightarrow> string" where
  "blobName uid rid = uid @ ''/'' @ rid @ ''.webm''"

definition uploadAudioFile :: "services \<Rightarrow> string \<Rightarrow> string \<Rightarrow> world \<Rightarrow> string + world" where
  "uploadAudioFile sv uid rid w =
     (if \<not> storage_up sv then Inl ''storage unavailable''
      else if blobName uid rid \<in> set (blobs w) then Inl ''The resource already exists''
      else Inr (w\<lparr>blobs := blobs w @ [blobName uid rid]\<rparr>))"

definition deleteAudioFile :: "services \<Rightarrow> string \<Rightarrow> string \<Rightarrow> world \<Rightarrow> string + world" where
  "deleteAudioFile sv uid rid w =
     (if \<not> storage_up sv then Inl ''storage unavailable''
      else Inr (w\<lparr>blobs := removeAll (blobName uid rid) (blobs w),
                 removed := removed w @ [blobName uid rid]\<rparr>))"

definition updateRecording ::
  "services \<Rightarrow> string \<Rightarrow> (recording \<Rightarrow> recording) \<Rightarrow> world \<Rightarrow> string + world \<times> recording" where
  "updateRecording sv rid updates w =
     (if \<not> database_up sv then Inl ''database unavailable''
      else
        (case recordings w rid of
           None \<Rightarrow> Inl ''JSON object requested, multiple (or no) rows returned''
         | Some r \<Rightarrow> Inr (w\<lparr>recordings := (recordings w)(rid \<mapsto> updates r)\<rparr>, updates r)))"

text \<open>Line 1223.\<close>

definition fileExtension :: "upload \<Rightarrow> string" where
  "fileExtension f =
     (case mimetype f of
        None \<Rightarrow> ''.wav''
      | Some m \<Rightarrow> if includes_str m ''webm'' then ''.webm'' else ''.wav'')"

text \<open>
  Steps 1 to 4 of the inner \<^verbatim>\<open>try\<close> block (lines 1209-1269), the ones that throw into
  \<^verbatim>\<open>catch (processingError)\<close>. The result carries the world at the throw or at the end, the
  value of \<^verbatim>\<open>tempFileWithExt\<close> then (\<open>None\<close> is \<^verbatim>\<open>null\<close>), and the message of the error or
  the values of step 4.
\<close>

definition steps_1_to_4 ::
  "services \<Rightarrow> upload \<Rightarrow> string \<Rightarrow> string \<Rightarrow> string \<Rightarrow> world \<Rightarrow>
   world \<times> string option \<times> (string + recording \<times> string \<times> string)" where
  "steps_1_to_4 sv f uid cid rid w =
     (case readFileSync (path f) w of
        Inl e \<Rightarrow> (w, None, Inl e)
      | Inr u \<Rightarrow>
     (case uploadAudioFile sv uid rid w of
        Inl e \<Rightarrow> (w, None, Inl e)
      | Inr w1 \<Rightarrow>
     (let tempFileWithExt = path f @ fileExtension f in
      case copyFileSync (path f) tempFileWithExt w1 of
        Inl e \<Rightarrow> (w1, Some tempFileWithExt, Inl e)
      | Inr w2 \<Rightarrow>
     (case transcribeAudio sv tempFileWithExt of
        Inl e \<Rightarrow> (w2, Some tempFileWithExt, Inl e)
      | Inr transcription \<Rightarrow>
     if transcription = [] \<or> length transcription < 10
     then (w2, Some tempFileWithExt, Inl ''Transcription too short or empty'')
     else
     (case generateLectureSummary sv transcription cid of
        Inl e \<Rightarrow> (w2, Some tempFileWithExt, Inl e)
      | Inr summary \<Rightarrow>
     (case updateRecording sv rid
             (\<lambda>r. r\<lparr>rec_transcription := Some transcription, rec_summary := Some summary,
                    rec_status := ''completed'',
                    rec_audio_url := Some (getAudioFileUrl sv (blobName uid rid))\<rparr>) w2 of
        Inl e \<Rightarrow> (w2, Some tempFileWithExt, Inl e)
      | Inr (w3, updatedRecording) \<Rightarrow>
          (w3, Some tempFileWithExt, Inr (updatedRecording, transcription, summary))))))))"

text \<open>Step 5 (lines 1274-1288): a failure is only logged.\<close>

definition step_5 :: "services \<Rightarrow> string \<Rightarrow> world \<Rightarrow> world" where
  "step_5 sv rid w =
     (if vectorizeRecording sv rid then w\<lparr>vectorized := vectorized w @ [rid]\<rparr> else w)"

text \<open>
  A \<^verbatim>\<open>try\<close> block whose \<^verbatim>\<open>catch\<close> only logs: the world is the one reached when the block
  ended or threw.
\<close>

definition second_unlink :: "upload \<Rightarrow> string option \<Rightarrow> world \<Rightarrow> world" where
  "second_unlink f temp w =
     (if truthy temp \<and> temp \<noteq> Some (path f) then
        (case unlinkSync (the temp) w of Inl e \<Rightarrow> w | Inr w' \<Rightarrow> w')
      else w)"

text \<open>Step 6 on the success path (lines 1291-1299).\<close>

definition cleanup_completed :: "upload \<Rightarrow> string option \<Rightarrow> world \<Rightarrow> world" where
  "cleanup_completed f temp w =
     (case unlinkSync (path f) w of Inl e \<Rightarrow> w | Inr w' \<Rightarrow> second_unlink f temp w')"

text \<open>The cleanup of the failure path (lines 1333-1342).\<close>

definition cleanup_failed :: "upload \<Rightarrow> string option \<Rightarrow> world \<Rightarrow> world" where
  "cleanup_failed f temp w =
     (if path f \<noteq> [] then
        (case unlinkSync (path f) w of Inl e \<Rightarrow> w | Inr w' \<Rightarrow> second_unlink f temp w')
      else second_unlink f temp w)"

text \<open>Lines 1323-1330.\<close>

definition mark_failed :: "services \<Rightarrow> string \<Rightarrow> string \<Rightarrow> world \<Rightarrow> world" where
  "mark_failed sv rid message w =
     (case updateRecording sv rid
             (\<lambda>r. r\<lparr>rec_status := ''failed'',
                    rec_summary := Some (''Processing failed: '' @ message)\<rparr>) w of
        Inl e \<Rightarrow> w
      | Inr (w', r) \<Rightarrow> w')"

text \<open>Step 7 (lines 1302-1307).\<close>

definition step_7 :: "services \<Rightarrow> string \<Rightarrow> string \<Rightarrow> world \<Rightarrow> world" where
  "step_7 sv uid rid w = (case deleteAudioFile sv uid rid w of Inl e \<Rightarrow> w | Inr w' \<Rightarrow> w')"

text \<open>The check of line 1193.\<close>

definition missing_fields :: "processRequest \<Rightarrow> bool" where
  "missing_fields req =
     (audioFile req = None \<or> \<not> truthy (userId req) \<or> \<not> truthy (courseId req) \<or>
      \<not> truthy (recordingId req))"

definition processRecording :: "services \<Rightarrow> processRequest \<Rightarrow> world \<Rightarrow> world \<times> processResponse" where
  "processRecording sv req w =
     (if missing_fields req
      then (w, BadRequest)
      else
        (let f = the (audioFile req); uid = the (userId req); cid = the (courseId req);
             rid = the (recordingId req)
         in case steps_1_to_4 sv f uid cid rid w of
              (w', temp, Inr (updatedRecording, transcription, summary)) \<Rightarrow>
                (step_7 sv uid rid (cleanup_completed f temp (step_5 sv rid w')),
                 Processed updatedRecording transcription summary)
            | (w', temp, Inl message) \<Rightarrow>
                (cleanup_failed f temp (mark_failed sv rid message w'),
                 ProcessingFailed message)))"

section \<open>AggregationPipeline: GET /api/dashboard (src/http-server.js, lines 377-638)\<close>

text \<open>A dashboard card, with the fields the handler reads.\<close>

record card =
  card_id :: nat
  shortName :: string
  originalName :: string

text \<open>
  A row of a category: an object of the upstream with the two fields the processor adds,
  \<^verbatim>\<open>{...assignment, course_id: course.id, course_name: course.shortName ||
  course.originalName}\<close>.
\<close>

record 'a row =
  item :: 'a
  course_id :: nat
  course_name :: string

definition annotate :: "card \<Rightarrow> 'a \<Rightarrow> 'a row" where
  "annotate c x =
     \<lparr>item = x, course_id = card_id c,
      course_name = (if shortName c \<noteq> [] then shortName c else originalName c)\<rparr>"

text \<open>
  The authenticated client as the handler meets it. A call for a course gives the ticks it
  takes and its result: an error thrown, a value that is not an array (\<open>None\<close>) or an array.
  The three dates the sorts compare are the values of \<^verbatim>\<open>new Date(...)\<close> in milliseconds:
  \<open>due_at\<close> is \<open>None\<close> for an assignment without one, \<open>posted\<close> stands for
  \<^verbatim>\<open>posted_at || created_at\<close> and \<open>updated\<close> for \<^verbatim>\<open>updated_at || created_at\<close>.
  \<open>healthCheck\<close> tells whether a client made of a token and a domain reports \<^verbatim>\<open>'ok'\<close>.
\<close>

record 'a canvasApi =
  healthCheck :: "string \<Rightarrow> string \<Rightarrow> bool"
  getDashboardCards :: "error + card list"
  listAssignments :: "nat \<Rightarrow> nat \<times> (error + 'a list option)"
  listAnnouncements :: "nat \<Rightarrow> nat \<times> (error + 'a list option)"
  listFiles :: "nat \<Rightarrow> nat \<times> (error + 'a list option)"
  due_at :: "'a \<Rightarrow> int option"
  posted :: "'a \<Rightarrow> int"
  updated :: "'a \<Rightarrow> int"

text \<open>
  The three processors have the same shape: the rows of an array, and the empty array both
  for a value that is not an array and for an error, which is caught and logged. They never
  reject.
\<close>

definition rows_of :: "card \<Rightarrow> nat \<times> (error + 'a list option) \<Rightarrow> nat \<times> ('a row list, error) settled" where
  "rows_of c answer =
     (fst answer,
      Fulfilled (case snd answer of Inr (Some xs) \<Rightarrow> map (annotate c) xs | _ \<Rightarrow> []))"

definition assignmentProcessor :: "'a canvasApi \<Rightarrow> (card, 'a row list, error) processor" where
  "assignmentProcessor api c = rows_of c (listAssignments api (card_id c))"

definition announcementProcessor :: "'a canvasApi \<Rightarrow> (card, 'a row list, error) processor" where
  "announcementProcessor api c = rows_of c (listAnnouncements api (card_id c))"

definition fileProcessor :: "'a canvasApi \<Rightarrow> (card, 'a row list, error) processor" where
  "fileProcessor api c = rows_of c (listFiles api (card_id c))"

text \<open>\<^verbatim>\<open>results.filter(result => result.status === 'fulfilled').flatMap(result => result.value)\<close>.\<close>

fun settled_value :: "('a list, 'e) settled \<Rightarrow> 'a list" where
  "settled_value (Fulfilled v) = v"
| "settled_value (Rejected e) = []"

definition fulfilled_rows :: "('a list, 'e) settled list \<Rightarrow> 'a list" where
  "fulfilled_rows results = concat (map settled_value (filter is_fulfilled results))"

text \<open>\<^verbatim>\<open>new Date('9999-12-31')\<close> in milliseconds.\<close>

definition far_future :: int where
  "far_future = 253402214400000"

definition due_key :: "'a canvasApi \<Rightarrow> 'a row \<Rightarrow> int" where
  "due_key api r = (case due_at api (item r) of None \<Rightarrow> far_future | Some t \<Rightarrow> t)"

text \<open>
  The three category fetches. \<^verbatim>\<open>Array.prototype.sort\<close> is stable; a descending order is the
  ascending order of the negated date. Nothing in the \<^verbatim>\<open>try\<close> block of the first two
  throws here (the batch run catches what the gate throws and the processors catch their
  own errors), so their \<^verbatim>\<open>catch\<close> block, the run over the first 5 cards, is not entered.
  Each function takes the metrics and gives them back; \<open>None\<close> is a batch run that does not
  return.
\<close>

definition getAllAssignmentsOptimized ::
  "'a canvasApi \<Rightarrow> card list \<Rightarrow> performanceMetrics \<Rightarrow> ('a row list \<times> performanceMetrics) option" where
  "getAllAssignmentsOptimized api dashboardCards m =
     (if length dashboardCards = 0 then Some ([], m)
      else
        (case processBatchWithRetry dashboardCards (assignmentProcessor api) COURSE_BATCH_SIZE m of
           None \<Rightarrow> None
         | Some (results, m') \<Rightarrow> Some (sort_key (due_key api) (fulfilled_rows results), m')))"

definition getAllAnnouncementsOptimized ::
  "'a canvasApi \<Rightarrow> card list \<Rightarrow> performanceMetrics \<Rightarrow> ('a row list \<times> performanceMetrics) option" where
  "getAllAnnouncementsOptimized api dashboardCards m =
     (if length dashboardCards = 0 then Some ([], m)
      else
        (case processBatchWithRetry dashboardCards (announcementProcessor api) COURSE_BATCH_SIZE m of
           None \<Rightarrow> None
         | Some (results, m') \<Rightarrow>
             Some (sort_key (\<lambda>r. - posted api (item r)) (fulfilled_rows results), m')))"

definition getAllFilesOptimized ::
  "'a canvasApi \<Rightarrow> card list \<Rightarrow> performanceMetrics \<Rightarrow> ('a row list \<times> performanceMetrics) option" where
  "getAllFilesOptimized api dashboardCards m =
     (let limitedCourses = take (min 8 (length dashboardCards)) dashboardCards
      in case processBatchWithRetry limitedCourses (fileProcessor api) COURSE_BATCH_SIZE m of
           None \<Rightarrow> None
         | Some (results, m') \<Rightarrow>
             Some (sort_key (\<lambda>r. - updated api (item r)) (fulfilled_rows results), m'))"

text \<open>
  The state of the server: the token and the domain of the client in use (\<open>None\<close> when
  \<^verbatim>\<open>canvasClient\<close> is \<^verbatim>\<open>null\<close>) and the metrics.
\<close>

record server =
  session :: "(string \<times> string) option"
  metrics :: performanceMetrics

record dashboardQuery =
  token :: "string option"
  domain :: "string option"

record performance =
  coursesProcessed :: nat
  assignmentsCount :: nat
  announcementsCount :: nat
  filesCount :: nat

record 'a dashboard =
  courses :: "card list"
  assignments :: "'a row list"
  announcements :: "'a row list"
  files' :: "'a row list"
  performance :: performance

datatype 'a dashboardResponse =
    Unauthorized string
  | InternalError error
  | Dashboard "'a dashboard"

text \<open>Lines 382-398; \<open>Inl\<close> is the answer 401 that ends the request.\<close>

definition authenticate ::
  "'a canvasApi \<Rightarrow> dashboardQuery \<Rightarrow> server \<Rightarrow> 'a dashboardResponse + server" where
  "authenticate api q sv =
     (if truthy (token q) \<and> truthy (domain q) \<and>
         session sv \<noteq> Some (the (token q), the (domain q))
      then
        (if healthCheck api (the (token q)) (the (domain q))
         then Inr (sv\<lparr>session := Some (the (token q), the (domain q))\<rparr>)
         else Inl (Unauthorized ''Invalid Canvas credentials''))
      else Inr sv)"

text \<open>
  Lines 404-437. The three fetches are started together by \<^verbatim>\<open>Promise.all\<close>; each touches
  the metrics only by adding to the counters, so the metrics are threaded through them in
  turn.
\<close>

definition fetch_dashboard ::
  "'a canvasApi \<Rightarrow> card list \<Rightarrow> performanceMetrics \<Rightarrow> ('a dashboard \<times> performanceMetrics) option" where
  "fetch_dashboard api dashboardCards m =
     (let limitedCards = take MAX_COURSES dashboardCards
      in case getAllAssignmentsOptimized api limitedCards m of
           None \<Rightarrow> None
         | Some (allAssignments, m1) \<Rightarrow>
        (case getAllAnnouncementsOptimized api limitedCards m1 of
           None \<Rightarrow> None
         | Some (allAnnouncements, m2) \<Rightarrow>
        (case getAllFilesOptimized api limitedCards m2 of
           None \<Rightarrow> None
         | Some (allFiles, m3) \<Rightarrow>
             Some (\<lparr>courses = limitedCards,
                    assignments = take 50 allAssignments,
                    announcements = take 30 allAnnouncements,
                    files' = take 100 allFiles,
                    performance =
                      \<lparr>coursesProcessed = length limitedCards,
                       assignmentsCount = length allAssignments,
                       announcementsCount = length allAnnouncements,
                       filesCount = length allFiles\<rparr>\<rparr>, m3))))"

definition dashboard_handler ::
  "'a canvasApi \<Rightarrow> dashboardQuery \<Rightarrow> server \<Rightarrow> (server \<times> 'a dashboardResponse) option" where
  "dashboard_handler api q sv =
     (case authenticate api q sv of
        Inl answer \<Rightarrow> Some (sv, answer)
      | Inr sv' \<Rightarrow>
          if session sv' = None
          then Some (sv', Unauthorized
                 ''Not authenticated. Please provide token and domain parameters.'')
          else
            (case getDashboardCards api of
               Inl e \<Rightarrow> Some (sv', InternalError e)
             | Inr dashboardCards \<Rightarrow>
                 (case fetch_dashboard api dashboardCards (metrics sv') of
                    None \<Rightarrow> None
                  | Some (d, m) \<Rightarrow> Some (sv'\<lparr>metrics := m\<rparr>, Dashboard d))))"

section \<open>ConversationService.addMessage (src/services/conversation.js, lines 183-223)\<close>

record 'm message =
  msg_id :: string
  conversation_id :: string
  content :: string
  role :: string
  metadata :: 'm

record conversation =
  title :: string
  updated_at :: nat

text \<open>
  The durable store behind the client \<^verbatim>\<open>supabase\<close>: the two tables and whether the store
  answers. The module variable \<^verbatim>\<open>supabase\<close> is \<^verbatim>\<open>null\<close> (\<open>None\<close>) when the store is not
  configured.
\<close>

record 'm database =
  conversations :: "string \<rightharpoonup> conversation"
  messages :: "'m message list"
  reachable :: bool

text \<open>\<^verbatim>\<open>Date.now()\<close> inside a template string: the decimal digits of the number.\<close>

definition digit_char :: "nat \<Rightarrow> char" where
  "digit_char d = ''0123456789'' ! d"

function show_nat :: "nat \<Rightarrow> string" where
  "show_nat n =
     (if n < 10 then [digit_char n] else show_nat (n div 10) @ [digit_char (n mod 10)])"
  by pat_completeness auto
termination
  by (relation "measure id") auto

declare show_nat.simps [simp del]

text \<open>The object returned when nothing is saved (lines 186, 192 and 221).\<close>

definition temp_message :: "nat \<Rightarrow> string \<Rightarrow> string \<Rightarrow> string \<Rightarrow> 'm \<Rightarrow> 'm message" where
  "temp_message now conversationId c r md =
     \<lparr>msg_id = ''temp-'' @ show_nat now, conversation_id = conversationId, content = c,
      role = r, metadata = md\<rparr>"

text \<open>
  The insert of lines 198-207. The store gives the new row its id (\<open>new_id\<close>); the insert
  fails when the store does not answer or the conversation does not exist.
\<close>

definition insert_message ::
  "string \<Rightarrow> 'm database \<Rightarrow> string \<Rightarrow> string \<Rightarrow> string \<Rightarrow> 'm \<Rightarrow> string + 'm database \<times> 'm message" where
  "insert_message new_id db conversationId c r md =
     (if \<not> reachable db then Inl ''fetch failed''
      else if conversations db conversationId = None then Inl ''violates foreign key constraint''
      else
        (let row = \<lparr>msg_id = new_id, conversation_id = conversationId, content = c, role = r,
                    metadata = md\<rparr>
         in Inr (db\<lparr>messages := messages db @ [row]\<rparr>, row)))"

text \<open>
  \<^verbatim>\<open>updateConversation(conversationId, updates)\<close> (lines 305-331) on a configured store: the
  row gets the updates and a new \<^verbatim>\<open>updated_at\<close>; an error is caught and logged.
\<close>

definition updateConversation ::
  "'m database \<Rightarrow> string \<Rightarrow> (conversation \<Rightarrow> conversation) \<Rightarrow> nat \<Rightarrow> 'm database" where
  "updateConversation db conversationId updates now =
     (if startsWith conversationId ''temp-'' \<or> \<not> reachable db then db
      else
        (case conversations db conversationId of
           None \<Rightarrow> db
         | Some c \<Rightarrow>
             db\<lparr>conversations :=
                  (conversations db)(conversationId \<mapsto> (updates c)\<lparr>updated_at := now\<rparr>)\<rparr>))"

definition addMessage ::
  "string \<Rightarrow> nat \<Rightarrow> 'm database option \<Rightarrow> string \<Rightarrow> string \<Rightarrow> string \<Rightarrow> 'm \<Rightarrow>
   'm database option \<times> 'm message" where
  "addMessage new_id now supabase conversationId c r md =
     (case supabase of
        None \<Rightarrow> (None, temp_message now conversationId c r md)
      | Some db \<Rightarrow>
          if startsWith conversationId ''temp-''
          then (Some db, temp_message now conversationId c r md)
          else
            (case insert_message new_id db conversationId c r md of
               Inl e \<Rightarrow> (Some db, temp_message now conversationId c r md)
             | Inr (db', message) \<Rightarrow>
                 (Some (updateConversation db' conversationId (\<lambda>x. x) now), message)))"

section \<open>Notions used to state the properties\<close>

text \<open>A batch completes when the gate run on it returns its outcomes instead of throwing.\<close>

definition completes :: "('i, 'o, 'e) processor \<Rightarrow> 'i list \<Rightarrow> bool" where
  "completes processor batch =
     (case snd (processWithConcurrency batch processor MAX_CONCURRENT_REQUESTS) of
        Inr batchResults \<Rightarrow> True
      | Inl error \<Rightarrow> False)"



text \<open>
  A page of a list: a response that resolves, whose body is an array and which carries a
  Link header.
\<close>

definition is_list_page :: "response \<Rightarrow> bool" where
  "is_list_page p =
     (200 \<le> status p \<and> status p < 300 \<and> (case data p of JArr xs \<Rightarrow> True | _ \<Rightarrow> False) \<and>
      link p \<noteq> None)"

text \<open>
  \<open>linked_pages site l ps\<close>: starting from the Link header \<open>l\<close>, the next links of a site lead
  through the pages \<open>ps\<close>, in this order, and the Link header of the last page has no next
  link. \<open>next_urls\<close> are the URLs followed along the way.
\<close>

fun linked_pages :: "(string \<Rightarrow> reply) \<Rightarrow> string \<Rightarrow> response list \<Rightarrow> bool" where
  "linked_pages site l [] = (\<not> truthy (getNextPageUrl l))"
| "linked_pages site l (p # ps) =
     (truthy (getNextPageUrl l) \<and> site (the (getNextPageUrl l)) = Reply p \<and> is_list_page p \<and>
      linked_pages site (the (link p)) ps)"

fun next_urls :: "string \<Rightarrow> response list \<Rightarrow> string list" where
  "next_urls l [] = []"
| "next_urls l (p # ps) = the (getNextPageUrl l) # next_urls (the (link p)) ps"

definition page_items :: "response \<Rightarrow> json list" where
  "page_items p = the (spread (data p))"

section \<open>Concrete runs\<close>

text \<open>Two processors on numbered items: one rejects item 1 at once, one rejects item 2.\<close>

definition reject_first :: "(nat, nat, string) processor" where
  "reject_first i = (if i = 1 then (0, Rejected ''boom'') else (1, Fulfilled (10 * i)))"

definition reject_second :: "(nat, nat, string) processor" where
  "reject_second i = (if i = 2 then (1, Rejected ''late'') else (5, Fulfilled i))"

definition twelve_items :: "nat list" where
  "twelve_items = [1, 2, 3, 4, 5, 6, 7, 8, 9, 10, 11, 12]"


text \<open>An upstream that answers 429 to the first two requests and 200 from then on.\<close>

definition page :: "nat \<Rightarrow> string option \<Rightarrow> json \<Rightarrow> reply" where
  "page st l d = Reply \<lparr>status = st, link = l, data = d\<rparr>"

definition throttled_twice :: upstream where
  "throttled_twice k u = (if k < 2 then page 429 None JNull else page 200 None (JObj []))"

text \<open>
  A list of three linked pages; a list whose second page answers 404; a list whose last page
  has no Link header.
\<close>

definition three_pages :: "string \<Rightarrow> reply" where
  "three_pages u =
    (if u = ''/courses''
     then page 200 (Some ''<https://c/p2>; rel=\"next\",<https://c/p1>; rel=\"first\"'')
            (JArr [JNum 1, JNum 2])
     else if u = ''https://c/p2''
     then page 200 (Some ''<https://c/p1>; rel=\"prev\",<https://c/p3>; rel=\"next\"'')
            (JArr [JNum 3])
     else if u = ''https://c/p3''
     then page 200 (Some ''<https://c/p1>; rel=\"first\"'') (JArr [JNum 4, JNum 5])
     else page 404 None JNull)"

definition broken_second_page :: "string \<Rightarrow> reply" where
  "broken_second_page u =
    (if u = ''/courses''
     then page 200 (Some ''<https://c/p2>; rel=\"next\"'') (JArr [JNum 1, JNum 2])
     else page 404 None JNull)"

definition bare_last_page :: "string \<Rightarrow> reply" where
  "bare_last_page u =
    (if u = ''/courses''
     then page 200 (Some ''<https://c/p2>; rel=\"next\"'') (JArr [JNum 1, JNum 2])
     else page 200 None (JArr [JNum 3]))"

text \<open>
  A recording whose transcription comes back empty, in a world that holds the uploaded
  file and the row of the recording; the database either answers or not.
\<close>

definition silent_recording :: processRequest where
  "silent_recording =
     \<lparr>audioFile = Some \<lparr>path = ''uploads/a1'', mimetype = Some ''audio/webm''\<rparr>,
      userId = Some ''u1'', courseId = Some ''42'', recordingId = Some ''rec1''\<rparr>"

definition processing_row :: recording where
  "processing_row =
     \<lparr>rec_status = ''processing'', rec_summary = None, rec_transcription = None,
      rec_audio_url = None\<rparr>"

definition fresh_world :: world where
  "fresh_world =
     \<lparr>files = [''uploads/a1''], blobs = [], recordings = [''rec1'' \<mapsto> processing_row],
      unlinked = [], removed = [], vectorized = []\<rparr>"

definition silent_services :: "bool \<Rightarrow> services" where
  "silent_services db =
     \<lparr>storage_up = True, database_up = db, transcribeAudio = (\<lambda>f. Inr []),
      generateLectureSummary = (\<lambda>t c. Inr ''summary''), getAudioFileUrl = (\<lambda>n. n),
      vectorizeRecording = (\<lambda>r. True)\<rparr>"

text \<open>A signed-in server in front of a Canvas account without dashboard cards.\<close>

definition empty_canvas :: "nat canvasApi" where
  "empty_canvas =
     \<lparr>healthCheck = (\<lambda>t d. True), getDashboardCards = Inr [],
      listAssignments = (\<lambda>c. (1, Inr (Some []))),
      listAnnouncements = (\<lambda>c. (1, Inr (Some []))),
      listFiles = (\<lambda>c. (1, Inr (Some []))),
      due_at = (\<lambda>x. None), posted = (\<lambda>x. 0), updated = (\<lambda>x. 0)\<rparr>"

definition signed_in :: server where
  "signed_in = \<lparr>session = Some (''token'', ''canvas.example.edu''), metrics = logout_reset 0\<rparr>"

definition no_credentials :: dashboardQuery where
  "no_credentials = \<lparr>token = None, domain = None\<rparr>"

text \<open>A configured store that holds one conversation.\<close>

definition stored_conversation :: "unit database" where
  "stored_conversation =
     \<lparr>conversations = [''c1'' \<mapsto> \<lparr>title = ''Chat'', updated_at = 5\<rparr>], messages = [],
      reachable = True\<rparr>"

definition cmsc422 :: course where
  "cmsc422 = \<lparr>course_code = ''CMSC422'', name = ''Machine Learning''\<rparr>"

section \<open>Properties of the ConcurrencyGate\<close>

lemma earliest_mem: "earliest e xs \<in> set (e # xs)"
  by (induction xs arbitrary: e) auto

lemma race_mem: "executing \<noteq> [] \<Longrightarrow> race executing \<in> set executing"
  unfolding race_def using earliest_mem [of "hd executing" "tl executing"]
  by (cases executing) auto

text \<open>
  Whenever the loop ends without a throw, the outcomes are those of the promises in
  \<^verbatim>\<open>results\<close> followed by those of the remaining items, in the order of the items, and the
  processor has been called on every item.
\<close>

lemma gate_loop_outcomes:
  "gate_loop processor maxC items now executing results = (n, Inr outs) \<Longrightarrow>
   outs = map snd results @ map (\<lambda>i. snd (processor i)) items \<and>
   n = length results + length items"
proof (induction items arbitrary: now executing results)
  case Nil
  then show ?case by simp
next
  case (Cons item items)
  from Cons.prems show ?case
    by (auto simp: Let_def split: if_splits prod.splits settled.splits dest!: Cons.IH)
qed

text \<open>Below the limit the loop never waits, so nothing can make it throw.\<close>

lemma gate_loop_below_limit:
  "length executing + length items < maxC \<Longrightarrow>
   gate_loop processor maxC items now executing results =
     (length results + length items,
      Inr (map snd results @ map (\<lambda>i. snd (processor i)) items))"
  by (induction items arbitrary: now executing results) (auto simp: Let_def)

lemma still_executing_fulfilled:
  "\<forall>en \<in> set executing. is_fulfilled (snd (snd en)) \<Longrightarrow>
   \<forall>en \<in> set (still_executing slot executing). is_fulfilled (snd (snd en))"
  by (auto simp: still_executing_def)

text \<open>When no promise rejects, every race is won by a fulfilled promise.\<close>

lemma gate_loop_no_rejection:
  "\<forall>i \<in> set items. is_fulfilled (snd (processor i)) \<Longrightarrow>
   \<forall>en \<in> set executing. is_fulfilled (snd (snd en)) \<Longrightarrow>
   gate_loop processor maxC items now executing results =
     (length results + length items,
      Inr (map snd results @ map (\<lambda>i. snd (processor i)) items))"
proof (induction items arbitrary: now executing results)
  case Nil
  then show ?case by simp
next
  case (Cons item items)
  let ?p = "(now + fst (processor item), snd (processor item))"
  let ?ex = "executing @ [(length results, ?p)]"
  have all: "\<forall>en \<in> set ?ex. is_fulfilled (snd (snd en))"
    using Cons.prems by auto
  have "race ?ex \<in> set ?ex" by (rule race_mem) simp
  with all have rf: "is_fulfilled (snd (snd (race ?ex)))" by blast
  show ?case
  proof (cases "maxC \<le> length ?ex")
    case True
    obtain slot t r where tr: "race ?ex = (slot, t, r)" by (cases "race ?ex") auto
    with rf obtain v where r: "r = Fulfilled v" by (cases r) auto
    have "\<forall>en \<in> set (still_executing slot ?ex). is_fulfilled (snd (snd en))"
      using all by (rule still_executing_fulfilled)
    with Cons.IH [of "still_executing slot ?ex" "max now t" "results @ [?p]"]
      Cons.prems True tr r
    show ?thesis by (simp add: Let_def)
  next
    case False
    with Cons.IH [of ?ex now "results @ [?p]"] Cons.prems all
    show ?thesis by (simp add: Let_def)
  qed
qed

lemma gate_outcomes:
  assumes "snd (processWithConcurrency items processor maxC) = Inr outs"
  shows "outs = map (\<lambda>i. snd (processor i)) items"
proof -
  obtain n where "gate_loop processor maxC items 0 [] [] = (n, Inr outs)"
    using assms by (cases "gate_loop processor maxC items 0 [] []")
      (simp add: processWithConcurrency_def)
  from gate_loop_outcomes [OF this] show ?thesis by simp
qed

lemma gate_below_limit:
  "length items < maxC \<Longrightarrow>
   processWithConcurrency items processor maxC =
     (length items, Inr (map (\<lambda>i. snd (processor i)) items))"
  using gate_loop_below_limit [of "[]" items maxC processor 0 "[]"]
  by (simp add: processWithConcurrency_def)

lemma gate_no_rejection:
  "\<forall>i \<in> set items. is_fulfilled (snd (processor i)) \<Longrightarrow>
   processWithConcurrency items processor maxC =
     (length items, Inr (map (\<lambda>i. snd (processor i)) items))"
  using gate_loop_no_rejection [of items processor "[]" maxC 0 "[]"]
  by (simp add: processWithConcurrency_def)

text \<open>
  Claim C4. The claim: for every input of length N, every worker and every limit, the gate
  returns exactly N outcomes, the i-th being the settled result of the worker on the i-th
  item. The code at three items with limit 2, where the promise of item 2 rejects before the
  promise of item 1 settles: at the second item \<^verbatim>\<open>executing\<close> reaches the limit, the race is
  won by the rejected promise, and the gate throws its reason after two calls of the
  processor instead of returning three outcomes.
\<close>

theorem gate_throws_instead_of_outcomes:
  "processWithConcurrency [1, 2, 3] reject_second 2 = (2, Inl ''late'')"
  by (simp add: processWithConcurrency_def reject_second_def race_def Let_def)

text \<open>
  Claim C5. The claim: when the worker rejects for one item, the gate still completes the
  run, all sibling workers are invoked, the rejection is recorded as Rejected and is never
  propagated. The code at two items with limit 1, where the promise of item 1 rejects: the
  race on the array that holds this promise alone rejects, the gate throws the reason, and
  the processor has been called once: the sibling, item 2, is never started.
\<close>

theorem gate_rejection_aborts_siblings:
  "processWithConcurrency [1, 2] reject_first 1 = (1, Inl ''boom'')"
  by (simp add: processWithConcurrency_def reject_first_def race_def Let_def)

section \<open>Properties of the BatchOrchestrator\<close>


lemma slices_bounds:
  "b \<in> set (slices i batchSize items) \<Longrightarrow> length b \<le> batchSize \<and> set b \<subseteq> set items"
proof (induction i batchSize items rule: slices.induct)
  case (1 i batchSize items)
  from "1.prems" have c: "i < length items \<and> 0 < batchSize"
    by (subst (asm) slices.simps) (auto split: if_splits)
  with "1.prems" have
    "b = take batchSize (drop i items) \<or> b \<in> set (slices (i + batchSize) batchSize items)"
    by (subst (asm) slices.simps) auto
  then show ?case
  proof
    assume "b = take batchSize (drop i items)"
    then show ?thesis by (auto dest: in_set_takeD in_set_dropD)
  next
    assume "b \<in> set (slices (i + batchSize) batchSize items)"
    with 1 c show ?thesis by simp
  qed
qed

lemma completes_outcomes:
  "completes processor b \<Longrightarrow>
   snd (processWithConcurrency b processor MAX_CONCURRENT_REQUESTS) =
     Inr (map (\<lambda>i. snd (processor i)) b)"
  by (auto simp: completes_def split: sum.splits dest: gate_outcomes)


lemma length_concat_filter: "length (concat (filter P xss)) \<le> length (concat xss)"
  by (induction xss) auto


lemma processBatchWithRetry_empty:
  "0 < batchSize \<Longrightarrow> processBatchWithRetry [] processor batchSize m = Some ([], m)"
  by (simp add: processBatchWithRetry_def batches_of_def slices.simps)

text \<open>The counters only grow during a run, and the run leaves the time of the last reset.\<close>

lemma run_batches_counters_grow:
  "run_batches processor batches m allResults = (outs, m') \<Longrightarrow>
   totalRequests m \<le> totalRequests m' \<and> successfulRequests m \<le> successfulRequests m' \<and>
   failedRequests m \<le> failedRequests m' \<and> lastResetTime m' = lastResetTime m"
proof (induction batches arbitrary: m allResults)
  case Nil
  then show ?case by simp
next
  case (Cons b bs)
  show ?case
  proof (cases "snd (processWithConcurrency b processor MAX_CONCURRENT_REQUESTS)")
    case (Inl e)
    with Cons.prems Cons.IH [of "m\<lparr>failedRequests := failedRequests m + length b\<rparr>" allResults]
    show ?thesis by simp
  next
    case (Inr rs)
    with Cons.prems
      Cons.IH [of "m\<lparr>totalRequests := totalRequests m + length b,
                 successfulRequests := successfulRequests m + length (filter is_fulfilled rs),
                 failedRequests := failedRequests m + length (filter is_rejected rs)\<rparr>"
               "allResults @ rs"]
    show ?thesis by simp
  qed
qed

lemma fulfilled_or_rejected:
  "length (filter is_fulfilled rs) + length (filter is_rejected rs) = length rs"
proof (induction rs)
  case Nil
  then show ?case by simp
next
  case (Cons r rs)
  then show ?case by (cases r) simp_all
qed

text \<open>The \<^verbatim>\<open>try\<close> branch keeps the balance of the counters: it holds after a run in which
  every batch completes.\<close>

lemma run_batches_balanced:
  "\<forall>b \<in> set batches. completes processor b \<Longrightarrow>
   successfulRequests m + failedRequests m = totalRequests m \<Longrightarrow>
   run_batches processor batches m allResults = (outs, m') \<Longrightarrow>
   successfulRequests m' + failedRequests m' = totalRequests m'"
proof (induction batches arbitrary: m allResults)
  case Nil
  then show ?case by simp
next
  case (Cons b bs)
  let ?rs = "map (\<lambda>i. snd (processor i)) b"
  let ?m = "m\<lparr>totalRequests := totalRequests m + length b,
               successfulRequests := successfulRequests m + length (filter is_fulfilled ?rs),
               failedRequests := failedRequests m + length (filter is_rejected ?rs)\<rparr>"
  from Cons.prems(1) have
    g: "snd (processWithConcurrency b processor MAX_CONCURRENT_REQUESTS) = Inr ?rs"
    by (simp add: completes_outcomes)
  have bal: "successfulRequests ?m + failedRequests ?m = totalRequests ?m"
    using Cons.prems(2) fulfilled_or_rejected [of ?rs] by simp
  from Cons.prems(3) g have "run_batches processor bs ?m (allResults @ ?rs) = (outs, m')"
    by simp
  with Cons.IH [of ?m "allResults @ ?rs"] Cons.prems(1) bal show ?case by simp
qed

lemma logout_reset_counters:
  "totalRequests (logout_reset now) = 0 \<and> successfulRequests (logout_reset now) = 0 \<and>
   failedRequests (logout_reset now) = 0"
  by (simp add: logout_reset_def)

text \<open>
  Claim C2. The claim: after any sequence of runs since the last reset, also when the
  orchestration of a batch throws, \<open>successfulRequests + failedRequests = totalRequests\<close>.
  The code right after a reset, on one batch of twelve items of which the first rejects at
  once: the gate, at its limit of 12, throws; the \<^verbatim>\<open>catch\<close> branch adds 12 to
  \<^verbatim>\<open>failedRequests\<close> and nothing to \<^verbatim>\<open>totalRequests\<close>, which the \<^verbatim>\<open>try\<close> branch would have
  raised by 12. The counters end as 0 successful, 12 failed, 0 in total.
\<close>

theorem metrics_after_thrown_batch:
  "processBatchWithRetry twelve_items reject_first 12 (logout_reset 0) =
     Some ([], \<lparr>totalRequests = 0, successfulRequests = 0, failedRequests = 12,
                averageResponseTime = 0, lastResetTime = 0\<rparr>)"
  by code_simp







section \<open>Properties of the RetryingPaginatedClient\<close>

text \<open>
  A request whose config has no \<^verbatim>\<open>__retryCount\<close> is sent once: whatever the failure, the
  condition of line 105 is false and the error is thrown. Every request of the client
  starts this way.
\<close>

lemma attempt_without_retry_count:
  "retryCount config = None \<Longrightarrow>
   attempt cl up tr config =
     (sent config tr,
      case axios_result (up (length (requests tr)) (url config)) of
        Inr r \<Rightarrow> Inr r
      | Inl err \<Rightarrow> Inl (transform_error err))"
  by (subst attempt.simps) (simp add: retry_allowed_def split: sum.splits)

text \<open>
  With the counter set to 0 beforehand, which no code of the repository does, the same
  upstream would be retried twice, after 1000 and 2000 milliseconds, and answer 200.
\<close>

lemma retry_with_initialised_counter:
  "request fuel default_client throttled_twice no_traffic
     ((get_config ''/courses'')\<lparr>retryCount := Some 0\<rparr>) =
   Some (\<lparr>requests = [(''/courses'', False), (''/courses'', False), (''/courses'', False)],
          sleeps = [1000, 2000]\<rparr>,
         Inr \<lparr>status = 200, link = None, data = JObj []\<rparr>)"
  by (simp add: request.simps attempt.simps get_config_def default_client_def no_traffic_def
      throttled_twice_def page_def axios_result_def retry_allowed_def sent_def
      transform_error_def shouldRetry_def slept_def backoff_def count_retry_def paginates_def)

text \<open>
  Claim C1. The claim: the client retries a retryable failure (no response, 429, 5xx) up to
  the maximum retry count, waiting \<open>base * 2^(attempt-1)\<close>; against an upstream that returns
  429 twice and then 200 the request succeeds. The code, with the default client, against
  this upstream: the first answer 429 reaches the error interceptor with
  \<^verbatim>\<open>config.__retryCount\<close> undefined, \<^verbatim>\<open>undefined < 3\<close> is false, and the request fails with
  \<^verbatim>\<open>CanvasAPIError\<close> 429 after one request and no delay.
\<close>

theorem no_retry_on_429:
  "request fuel default_client throttled_twice no_traffic (get_config ''/courses'') =
     Some (\<lparr>requests = [(''/courses'', False)], sleeps = []\<rparr>,
           Inl (CanvasAPIError 429 JNull))"
  by (simp add: request.simps attempt.simps get_config_def default_client_def no_traffic_def
      throttled_twice_def page_def axios_result_def retry_allowed_def sent_def
      transform_error_def)

lemma attempt_resolves:
  "axios_result (up (length (requests tr)) (url config)) = Inr r \<Longrightarrow>
   attempt cl up tr config = (sent config tr, Inr r)"
  by (subst attempt.simps) simp

lemma axios_list_page: "is_list_page p \<Longrightarrow> axios_result (Reply p) = Inr p"
  by (simp add: is_list_page_def axios_result_def)

lemma next_page_list_page:
  "is_list_page p \<Longrightarrow>
   next_page allData p = Inr (allData @ page_items p, getNextPageUrl (the (link p)))"
  by (auto simp: is_list_page_def next_page_def page_items_def split: json.splits)

text \<open>
  A continuation request carries the flag, so the response interceptor leaves its response
  as it is, whatever Link header it has: the condition of line 85 is false.
\<close>

lemma continuation_does_not_paginate: "\<not> paginates (continuation u) r"
  by (simp add: paginates_def continuation_def)

lemma request_continuation:
  "request fuel cl up tr (continuation u) =
     (case attempt cl up tr (continuation u) of
        (tr', Inl e) \<Rightarrow> Some (tr', Inl e)
      | (tr', Inr r) \<Rightarrow> Some (tr', Inr r))"
  by (subst request.simps) (simp add: continuation_does_not_paginate split: prod.splits sum.splits)

text \<open>
  The loop along a chain of pages: one continuation request for each page, each with the
  flag set, and the items of the pages appended in order.
\<close>

lemma follow_linked_pages:
  "linked_pages site l ps \<Longrightarrow> length ps \<le> fuel \<Longrightarrow>
   follow fuel cl (\<lambda>k. site) tr allData (getNextPageUrl l) =
     Some (tr\<lparr>requests := requests tr @ map (\<lambda>u. (u, True)) (next_urls l ps)\<rparr>,
           Inr (allData @ concat (map page_items ps)))"
proof (induction ps arbitrary: l fuel tr allData)
  case Nil
  then show ?case by (cases fuel) (simp_all add: follow.simps)
next
  case (Cons p ps)
  from Cons.prems obtain fuel' where fuel: "fuel = Suc fuel'" "length ps \<le> fuel'"
    by (cases fuel) auto
  let ?u = "the (getNextPageUrl l)"
  from Cons.prems have t: "truthy (getNextPageUrl l)" and s: "site ?u = Reply p"
    and lp: "is_list_page p" and rest: "linked_pages site (the (link p)) ps"
    by simp_all
  have "attempt cl (\<lambda>k. site) tr (continuation ?u) = (sent (continuation ?u) tr, Inr p)"
    by (rule attempt_resolves) (simp add: continuation_def s axios_list_page [OF lp])
  then have a: "request fuel' cl (\<lambda>k. site) tr (continuation ?u) =
                  Some (sent (continuation ?u) tr, Inr p)"
    by (simp add: request_continuation)
  have n: "next_page allData p = Inr (allData @ page_items p, getNextPageUrl (the (link p)))"
    using lp by (rule next_page_list_page)
  have "follow fuel cl (\<lambda>k. site) tr allData (getNextPageUrl l) =
        follow fuel' cl (\<lambda>k. site) (sent (continuation ?u) tr) (allData @ page_items p)
          (getNextPageUrl (the (link p)))"
    using t a n fuel by (simp add: follow.simps)
  also have "\<dots> = Some ((sent (continuation ?u) tr)
        \<lparr>requests := requests (sent (continuation ?u) tr) @
           map (\<lambda>u. (u, True)) (next_urls (the (link p)) ps)\<rparr>,
        Inr ((allData @ page_items p) @ concat (map page_items ps)))"
    using rest fuel(2) by (rule Cons.IH)
  finally show ?case by (simp add: sent_def continuation_def)
qed

text \<open>
  Where every page of the chain carries a Link header, the client does what is asked of it:
  when the next links lead from the first response through pages that each resolve with a
  list and a Link header, up to a page whose header has no next link, it returns the
  concatenation of all pages in page order, and sends one continuation request for each
  further page, each marked \<^verbatim>\<open>_isPaginationRequest\<close>, and no other request.
\<close>

lemma request_follows_linked_pages:
  assumes "site u = Reply r" and "is_list_page r" and "truthy (link r)"
    and "linked_pages site (the (link r)) ps" and "length ps \<le> fuel"
  shows "request fuel cl (\<lambda>k. site) tr (get_config u) =
     Some (tr\<lparr>requests := requests tr @ (u, False) #
                  map (\<lambda>v. (v, True)) (next_urls (the (link r)) ps)\<rparr>,
           Inr (r\<lparr>data := JArr (concat (map page_items (r # ps)))\<rparr>))"
proof -
  have a: "attempt cl (\<lambda>k. site) tr (get_config u) = (sent (get_config u) tr, Inr r)"
    by (rule attempt_resolves) (simp add: get_config_def assms(1) axios_list_page [OF assms(2)])
  have p: "paginates (get_config u) r"
    using assms(2,3) by (simp add: paginates_def is_list_page_def get_config_def)
  have f: "follow fuel cl (\<lambda>k. site) (sent (get_config u) tr) (page_items r)
             (getNextPageUrl (the (link r))) =
           Some ((sent (get_config u) tr)
                   \<lparr>requests := requests (sent (get_config u) tr) @
                      map (\<lambda>v. (v, True)) (next_urls (the (link r)) ps)\<rparr>,
                 Inr (page_items r @ concat (map page_items ps)))"
    using assms(4,5) by (rule follow_linked_pages)
  have "request fuel cl (\<lambda>k. site) tr (get_config u) =
        Some ((sent (get_config u) tr)
                \<lparr>requests := requests (sent (get_config u) tr) @
                   map (\<lambda>v. (v, True)) (next_urls (the (link r)) ps)\<rparr>,
              Inr (r\<lparr>data := JArr (page_items r @ concat (map page_items ps))\<rparr>))"
    using f by (simp add: request.simps a p page_items_def with_data_def)
  then show ?thesis by (simp add: sent_def get_config_def)
qed

text \<open>
  The list of three linked pages, each with a Link header: the client sends the initial
  request and 2 continuation requests and returns the items of the three pages in order.
\<close>

lemma three_linked_pages:
  "request 2 default_client (\<lambda>k. three_pages) no_traffic (get_config ''/courses'') =
     Some (\<lparr>requests =
              [(''/courses'', False), (''https://c/p2'', True), (''https://c/p3'', True)],
            sleeps = []\<rparr>,
           Inr \<lparr>status = 200,
                link = Some ''<https://c/p2>; rel=\"next\",<https://c/p1>; rel=\"first\"'',
                data = JArr [JNum 1, JNum 2, JNum 3, JNum 4, JNum 5]\<rparr>)"
proof -
  let ?l1 = "''<https://c/p2>; rel=\"next\",<https://c/p1>; rel=\"first\"''"
  let ?r1 = "\<lparr>status = 200, link = Some ?l1, data = JArr [JNum 1, JNum 2]\<rparr>"
  let ?r2 = "\<lparr>status = 200,
              link = Some ''<https://c/p1>; rel=\"prev\",<https://c/p3>; rel=\"next\"'',
              data = JArr [JNum 3]\<rparr>"
  let ?r3 = "\<lparr>status = 200, link = Some ''<https://c/p1>; rel=\"first\"'',
              data = JArr [JNum 4, JNum 5]\<rparr>"
  have a: "three_pages ''/courses'' = Reply ?r1" by (simp add: three_pages_def page_def)
  have b: "is_list_page ?r1" by (simp add: is_list_page_def)
  have c: "truthy (link ?r1)" by (simp add: truthy_def)
  have d: "linked_pages three_pages (the (link ?r1)) [?r2, ?r3]" by code_simp
  have e: "length [?r2, ?r3] \<le> 2" by simp
  have u: "next_urls (the (link ?r1)) [?r2, ?r3] = [''https://c/p2'', ''https://c/p3'']"
    by code_simp
  from request_follows_linked_pages [OF a b c d e, of default_client no_traffic] u
  show ?thesis by (simp add: page_items_def no_traffic_def)
qed

text \<open>
  A continuation request that fails ends the logical request with its error, as any failure
  with a 4xx status is surfaced: here the second page answers 404.
\<close>

lemma failed_continuation_surfaces:
  "request 5 default_client (\<lambda>k. broken_second_page) no_traffic (get_config ''/courses'') =
     Some (\<lparr>requests = [(''/courses'', False), (''https://c/p2'', True)], sleeps = []\<rparr>,
           Inl (CanvasAPIError 404 JNull))"
  by code_simp

text \<open>
  Claim C6. The claim: for every initial request whose response body is a list carrying a
  next-page link, the client follows the chain of next links and returns the concatenation
  of all pages in page order. The code on a list of two pages whose last page comes without
  a Link header: the first response, with body [1, 2], links to the second page; the
  continuation request resolves with the body [3] and no Link header; line 93 then calls
  \<^verbatim>\<open>getNextPageUrl\<close> on \<^verbatim>\<open>undefined\<close>, whose \<^verbatim>\<open>linkHeader.split\<close> throws a \<^verbatim>\<open>TypeError\<close>, and
  the logical request fails instead of returning [1, 2, 3]. Line 85 guards the first
  response against a missing header (\<^verbatim>\<open>linkHeader &&\<close>); the loop has no such guard.
\<close>

theorem last_page_without_link_header_throws:
  "request (Suc fuel) default_client (\<lambda>k. bare_last_page) no_traffic
     (get_config ''/courses'') =
     Some (\<lparr>requests = [(''/courses'', False), (''https://c/p2'', True)], sleeps = []\<rparr>,
           Inl TypeError)"
proof -
  have n: "getNextPageUrl ''<https://c/p2>; rel=\"next\"'' = Some ''https://c/p2''"
    by code_simp
  show ?thesis
    by (simp add: request.simps follow.simps attempt.simps n get_config_def continuation_def
        default_client_def no_traffic_def bare_last_page_def page_def axios_result_def
        sent_def paginates_def truthy_def with_data_def next_page_def)
qed

section \<open>Properties of the QueryAnalyzer fallback\<close>

text \<open>The example of the specification, and the empty query.\<close>

lemma fallback_example:
  "fallbackQueryProcessing ''What assignments are due this week in CMSC422?'' [cmsc422] =
   \<lparr>searchType = ''assignments'', courseFilter = Some ''CMSC422'',
    timeFilter = Some ''this_week'', priority = Some ''due_soon'',
    keywords' = [''What'', ''assignments'', ''are'', ''due'', ''this'', ''week'', ''CMSC422?''],
    specificItems = [], intent = ''find_assignments''\<rparr>"
  by code_simp

lemma fallback_empty_query:
  "fallbackQueryProcessing [] [] =
   \<lparr>searchType = ''general'', courseFilter = None, timeFilter = None, priority = None,
    keywords' = [], specificItems = [], intent = ''general_question''\<rparr>"
  by code_simp

text \<open>
  Claim C8. For every query string, the empty one included, and every list of courses the
  fallback analyzer returns a well-formed SearchIntent: the search type, the time filter,
  the priority and the intent are among the values allowed for them (the filters possibly
  null), the list of specific items is present (and empty) and the list of keywords is
  present (the words of the query longer than two characters). The function is total and
  has no failing branch.
\<close>

theorem fallback_is_valid:
  "valid_SearchIntent (fallbackQueryProcessing userQuery userCourses) \<and>
   specificItems (fallbackQueryProcessing userQuery userCourses) = [] \<and>
   keywords' (fallbackQueryProcessing userQuery userCourses) =
     filter (\<lambda>word. 2 < length word) (split CHR '' '' userQuery)"
  by (simp add: valid_SearchIntent_def fallbackQueryProcessing_def detect_timeFilter_def)

text \<open>Claim C8, at the empty query and no course.\<close>

theorem fallback_is_valid_witness:
  "valid_SearchIntent (fallbackQueryProcessing [] []) \<and>
   specificItems (fallbackQueryProcessing [] []) = [] \<and>
   keywords' (fallbackQueryProcessing [] []) = []"
  using fallback_is_valid [of "[]" "[]"] by (simp add: split_def)

section \<open>Properties of the IngestionPipeline\<close>

lemma path_temp_distinct: "p @ fileExtension f \<noteq> p"
  by (simp add: fileExtension_def split: option.splits)

lemma fileExtension_nonempty: "fileExtension f \<noteq> []"
  by (simp add: fileExtension_def split: option.splits)

text \<open>
  When the update of the row fails, the \<^verbatim>\<open>catch\<close> around \<^verbatim>\<open>updateRecording\<close> (lines
  1323-1330) only logs and the stored status stays \<open>processing\<close>. Here the database does
  not answer.
\<close>

lemma failed_status_not_recorded:
  "map_option rec_status
     (recordings (fst (processRecording (silent_services False) silent_recording fresh_world))
        ''rec1'') = Some ''processing''"
  by (simp add: processRecording_def missing_fields_def silent_services_def
      silent_recording_def fresh_world_def
      truthy_def steps_1_to_4_def readFileSync_def uploadAudioFile_def copyFileSync_def Let_def
      blobName_def fileExtension_def mark_failed_def updateRecording_def cleanup_failed_def
      unlinkSync_def second_unlink_def processing_row_def)

text \<open>
  The part of the failure path that works. When the transcription of a recording comes back
  empty or shorter than 10 characters (the request being complete, the uploaded file in
  place and the upload to the storage accepted), the request is answered with the error
  \<open>Transcription too short or empty\<close>; the row of the recording, whenever the database
  accepts the update, gets the status \<open>failed\<close> and the summary
  \<open>Processing failed: Transcription too short or empty\<close>; and the cleanup deletes each of
  the two local temporary files, the uploaded file and its copy with the extension, exactly
  once.
\<close>

lemma short_transcription_fails:
  assumes req: "audioFile req = Some f" "userId req = Some uid" "uid \<noteq> []"
      "truthy (courseId req)" "recordingId req = Some rid" "rid \<noteq> []"
    and present: "path f \<in> set (files w)" "path f \<noteq> []"
    and up: "storage_up sv" "blobName uid rid \<notin> set (blobs w)"
    and short: "transcribeAudio sv (path f @ fileExtension f) = Inr t" "length t < 10"
    and run: "processRecording sv req w = (w', answer)"
  shows "answer = ProcessingFailed ''Transcription too short or empty'' \<and>
         unlinked w' = unlinked w @ [path f, path f @ fileExtension f] \<and>
         path f \<notin> set (files w') \<and> path f @ fileExtension f \<notin> set (files w') \<and>
         (database_up sv \<and> recordings w rid = Some r \<longrightarrow>
            recordings w' rid =
              Some (r\<lparr>rec_status := ''failed'',
                      rec_summary :=
                        Some ''Processing failed: Transcription too short or empty''\<rparr>))"
proof -
  let ?temp = "path f @ fileExtension f"
  let ?w2 = "w\<lparr>blobs := blobs w @ [blobName uid rid], files := List.insert ?temp (files w)\<rparr>"
  have s: "steps_1_to_4 sv f uid (the (courseId req)) rid w =
             (?w2, Some ?temp, Inl ''Transcription too short or empty'')"
    using present up short
    by (auto simp: steps_1_to_4_def readFileSync_def uploadAudioFile_def copyFileSync_def Let_def)
  let ?w3 = "mark_failed sv rid ''Transcription too short or empty'' ?w2"
  have r: "(w', answer) = (cleanup_failed f (Some ?temp) ?w3,
             ProcessingFailed ''Transcription too short or empty'')"
    using run req s by (simp add: processRecording_def missing_fields_def truthy_def Let_def)
  have m: "files ?w3 = files ?w2 \<and> unlinked ?w3 = unlinked ?w2"
    by (simp add: mark_failed_def updateRecording_def split: option.splits)
  have c: "cleanup_failed f (Some ?temp) ?w3 =
           ?w3\<lparr>files := removeAll ?temp (removeAll (path f) (files ?w3)),
                unlinked := unlinked ?w3 @ [path f, ?temp]\<rparr>"
    using present m path_temp_distinct [of "path f" f] fileExtension_nonempty [of f]
    by (simp add: cleanup_failed_def unlinkSync_def second_unlink_def truthy_def)
  from r c have w': "w' = ?w3\<lparr>files := removeAll ?temp (removeAll (path f) (files ?w3)),
                unlinked := unlinked ?w3 @ [path f, ?temp]\<rparr>" by simp
  from r have 1: "answer = ProcessingFailed ''Transcription too short or empty''" by simp
  from w' m have 2: "unlinked w' = unlinked w @ [path f, ?temp]" by simp
  from w' have 3: "path f \<notin> set (files w') \<and> ?temp \<notin> set (files w')" by simp
  from w' have 4: "database_up sv \<and> recordings w rid = Some r \<longrightarrow>
           recordings w' rid =
             Some (r\<lparr>rec_status := ''failed'',
                     rec_summary :=
                       Some ''Processing failed: Transcription too short or empty''\<rparr>)"
    by (simp add: mark_failed_def updateRecording_def)
  from 1 2 3 4 show ?thesis by blast
qed

text \<open>
  Claim C7. The claim: when the transcription comes back as an empty string, the job goes
  to \<open>failed\<close> with a non-empty reason and the compensating cleanup deletes the temporary
  blob exactly once. The code on a recording whose transcription is empty, every service
  answering: the row ends as \<open>failed\<close> with the reason, and the two local files are unlinked
  once each; but the audio that step 1 uploaded to the storage (line 1209, \<^verbatim>\<open>Upload audio
  to Supabase Storage temporarily\<close>) is still there after the run, and nothing was removed
  from the storage: the failure path (lines 1319-1345) never calls \<^verbatim>\<open>deleteAudioFile\<close>,
  which step 7 of the success path does (lines 1301-1307).
\<close>

theorem uploaded_audio_left_in_storage:
  "snd (processRecording (silent_services True) silent_recording fresh_world) =
     ProcessingFailed ''Transcription too short or empty'' \<and>
   recordings (fst (processRecording (silent_services True) silent_recording fresh_world))
     ''rec1'' =
     Some \<lparr>rec_status = ''failed'',
           rec_summary = Some ''Processing failed: Transcription too short or empty'',
           rec_transcription = None, rec_audio_url = None\<rparr> \<and>
   unlinked (fst (processRecording (silent_services True) silent_recording fresh_world)) =
     [''uploads/a1'', ''uploads/a1.webm''] \<and>
   blobs (fst (processRecording (silent_services True) silent_recording fresh_world)) =
     [''u1/rec1.webm''] \<and>
   removed (fst (processRecording (silent_services True) silent_recording fresh_world)) = []"
  by (simp add: processRecording_def missing_fields_def silent_services_def
      silent_recording_def fresh_world_def
      truthy_def steps_1_to_4_def readFileSync_def uploadAudioFile_def copyFileSync_def Let_def
      blobName_def fileExtension_def mark_failed_def updateRecording_def cleanup_failed_def
      unlinkSync_def second_unlink_def processing_row_def)

section \<open>Properties of the AggregationPipeline\<close>

text \<open>
  Claim C9. When the handler is reached by an authenticated request and the fetched list of
  dashboard cards is empty, it answers with the dashboard whose three categories,
  assignments, announcements and files, are empty and whose performance summary reports
  \<open>coursesProcessed = 0\<close>; the state of the server, the metrics included, is unchanged.
\<close>

theorem dashboard_without_cards:
  assumes "authenticate api q sv = Inr sv'" and "session sv' \<noteq> None"
    and "getDashboardCards api = Inr []"
  shows "dashboard_handler api q sv =
     Some (sv', Dashboard
       \<lparr>courses = [], assignments = [], announcements = [], files' = [],
        performance = \<lparr>coursesProcessed = 0, assignmentsCount = 0, announcementsCount = 0,
                       filesCount = 0\<rparr>\<rparr>)"
proof -
  have f: "getAllFilesOptimized api [] m = Some ([], m)" for m
    by (simp add: getAllFilesOptimized_def processBatchWithRetry_empty COURSE_BATCH_SIZE_def
        fulfilled_rows_def)
  have "fetch_dashboard api [] (metrics sv') =
     Some (\<lparr>courses = [], assignments = [], announcements = [], files' = [],
        performance = \<lparr>coursesProcessed = 0, assignmentsCount = 0, announcementsCount = 0,
                       filesCount = 0\<rparr>\<rparr>, metrics sv')"
    by (simp add: fetch_dashboard_def getAllAssignmentsOptimized_def
        getAllAnnouncementsOptimized_def f)
  with assms show ?thesis by (simp add: dashboard_handler_def)
qed

text \<open>Claim C9, witness: a signed-in server and an account without cards.\<close>

theorem dashboard_without_cards_witness:
  "authenticate empty_canvas no_credentials signed_in = Inr signed_in \<and>
   session signed_in \<noteq> None \<and> getDashboardCards empty_canvas = Inr [] \<and>
   dashboard_handler empty_canvas no_credentials signed_in =
     Some (signed_in, Dashboard
       \<lparr>courses = [], assignments = [], announcements = [], files' = [],
        performance = \<lparr>coursesProcessed = 0, assignmentsCount = 0, announcementsCount = 0,
                       filesCount = 0\<rparr>\<rparr>)"
proof -
  have a: "authenticate empty_canvas no_credentials signed_in = Inr signed_in"
    by (simp add: authenticate_def no_credentials_def truthy_def)
  have s: "session signed_in \<noteq> None" by (simp add: signed_in_def)
  have c: "getDashboardCards empty_canvas = Inr []" by (simp add: empty_canvas_def)
  from a s c dashboard_without_cards [OF a s c] show ?thesis by simp
qed

section \<open>Properties of ConversationService.addMessage\<close>

text \<open>
  Claim C10. For every conversation id that begins with \<open>temp-\<close>, and whenever the store is
  not configured, \<open>addMessage\<close> leaves the store as it is, writing nothing, and returns the
  synthetic message that echoes the conversation id, the content, the role and the
  metadata, under an id made of \<open>temp-\<close> and the current time. The function has no failing
  branch.
\<close>

theorem addMessage_skips_store:
  assumes "supabase = None \<or> startsWith conversationId ''temp-''"
  shows "addMessage new_id now supabase conversationId c r md =
     (supabase,
      \<lparr>msg_id = ''temp-'' @ show_nat now, conversation_id = conversationId, content = c,
       role = r, metadata = md\<rparr>)"
  using assms by (auto simp: addMessage_def temp_message_def split: option.splits)

text \<open>Claim C10, witness: a temporary conversation id on a configured store.\<close>

theorem addMessage_skips_store_witness:
  "(Some stored_conversation = None \<or> startsWith ''temp-1700000000000'' ''temp-'') \<and>
   addMessage ''m1'' 1700000000123 (Some stored_conversation) ''temp-1700000000000'' ''hello''
       ''user'' () =
     (Some stored_conversation,
      \<lparr>msg_id = ''temp-1700000000123'', conversation_id = ''temp-1700000000000'',
       content = ''hello'', role = ''user'', metadata = ()\<rparr>)"
proof -
  have h: "Some stored_conversation = None \<or> startsWith ''temp-1700000000000'' ''temp-''"
    by simp
  have d: "show_nat 1700000000123 = ''1700000000123''"
    by (simp add: show_nat.simps digit_char_def)
  from h d addMessage_skips_store [OF h, of "''m1''" 1700000000123 "''hello''" "''user''" "()"]
  show ?thesis by simp
qed

end
